theory Spec2Isabelle
  imports Main "HOL-Library.Word"
begin

section \<open>Node events of the gocql session (events.go)\<close>

text \<open>
  The file events.go holds three things: the event debouncer (a buffer of frames that a
  timer flushes to a callback), the aggregation of a flushed batch into one event per
  host (\<open>handleNodeEvent\<close>), and the four handlers that apply such an event to the ring
  and to the connection pool. The collaborators (ring, pool, control connection, host
  source, framer) are declared elsewhere: each of their calls is recorded in a trace, in
  program order, and the ring, whose answers decide the control flow, is a map.
\<close>

subsection \<open>Data\<close>

text \<open>\<open>net.IP\<close> is a byte slice.\<close>

type_synonym IP = "8 word list"

text \<open>A Go \<open>error\<close> value, with its message.\<close>

datatype error = Error string

text \<open>
  Modelled from the spec: the frame types are declared outside events.go. The two node
  event frames carry the fields \<open>change\<close>, \<open>host\<close> and \<open>port\<close> that the code reads; the
  three schema change frames and every other frame type carry an opaque payload.
\<close>

datatype frame =
    topologyChangeEventFrame string IP int
  | statusChangeEventFrame string IP int
  | schemaChangeKeyspace string
  | schemaChangeFunction string
  | schemaChangeTable string
  | otherFrame string

datatype nodeState = NodeUp | NodeDown

text \<open>
  Modelled from the spec: \<open>HostInfo\<close> is declared outside events.go; a host has an
  address, a port, an availability state and the metadata fetched on discovery.
\<close>

record HostInfo =
  hpeer :: IP
  hport :: int
  hstate :: nodeState
  hmeta :: string

text \<open>
  Go passes hosts around as \<open>*HostInfo\<close>. A pointer is a reference into a store of
  host objects, so that an update through one pointer is seen through every other.
\<close>

type_synonym ref = nat

text \<open>The lines written with \<open>log.Printf\<close> and \<open>log.Println\<close>, one constructor per call site.\<close>

datatype logLine =
    LogFlushing string nat
  | LogBuffering string frame
  | LogBufferFull string frame
  | LogNodeEvent string string
  | LogParseError error
  | LogFrame frame
  | LogInvalidFrame frame
  | LogFetchFailed IP error
  | LogAlreadyHave ref ref

text \<open>The calls made to the collaborators.\<close>

datatype call =
    Log logLine
  | FramerPoolPut
  | FetchHostInfo IP int
  | RingAddHostIfMissing ref
  | RingRemoveHost string
  | RingGetHost string
  | HostUpdate ref ref
  | HostSetState ref nodeState
  | PoolAddHost ref
  | PoolRemoveHost string
  | PoolHostUp ref
  | PoolHostDown string
  | RefreshRing

subsection \<open>The event debouncer\<close>

text \<open>
  \<open>timer\<close> tells whether the timer is armed. \<open>spawned\<close> lists the batches handed to
  \<open>go e.callback(...)\<close>, oldest first: the callback runs in a goroutine of its own, so a
  flush only starts it. \<open>printed\<close> lists the lines the debouncer logged.
\<close>

record eventDeouncer =
  name :: string
  timer :: bool
  events :: "frame list"
  spawned :: "frame list list"
  printed :: "logLine list"

definition eventBufferSize :: nat where
  "eventBufferSize = 1000"

definition newEventDeouncer :: "string \<Rightarrow> eventDeouncer" where
  "newEventDeouncer nm =
     \<lparr>name = nm, timer = False, events = [], spawned = [], printed = []\<rparr>"

definition flush :: "eventDeouncer \<Rightarrow> eventDeouncer" where
  "flush e =
     (let e1 = e\<lparr>printed := printed e @ [LogFlushing (name e) (length (events e))]\<rparr>
      in if length (events e1) = 0 then e1
         else e1\<lparr>spawned := spawned e1 @ [events e1], events := []\<rparr>)"

definition debounce :: "eventDeouncer \<Rightarrow> frame \<Rightarrow> eventDeouncer" where
  "debounce e fr =
     (let e1 = e\<lparr>timer := True\<rparr>
      in if length (events e1) < eventBufferSize
         then e1\<lparr>printed := printed e1 @ [LogBuffering (name e1) fr],
                 events := events e1 @ [fr]\<rparr>
         else e1\<lparr>printed := printed e1 @ [LogBufferFull (name e1) fr]\<rparr>)"

text \<open>A run of \<open>debounce\<close> calls with no flush in between.\<close>

definition debounceAll :: "eventDeouncer \<Rightarrow> frame list \<Rightarrow> eventDeouncer" where
  "debounceAll e frs = foldl debounce e frs"

subsection \<open>The session\<close>

text \<open>
  \<open>control\<close> is \<open>None\<close> for a nil control connection; otherwise it holds the answer of
  \<open>fetchHostInfo\<close> for each address and port. \<open>heap\<close> is the store of host objects and
  \<open>nextRef\<close> the next unused reference. \<open>ring\<close> maps an address string to the host the
  ring holds for it. \<open>trace\<close> lists the collaborator calls, oldest first.
\<close>

record Session =
  control :: "(IP \<Rightarrow> int \<Rightarrow> error + HostInfo) option"
  heap :: "ref \<Rightarrow> HostInfo"
  nextRef :: ref
  ring :: "string \<rightharpoonup> ref"
  nodeEvents :: eventDeouncer
  trace :: "call list"

text \<open>
  What events.go uses without defining it: \<open>net.IP.String\<close> of the Go library and
  \<open>HostInfo.update\<close>, which merges fetched information into an existing host.
\<close>

record env =
  ipString :: "IP \<Rightarrow> string"
  hostUpdate :: "HostInfo \<Rightarrow> HostInfo \<Rightarrow> HostInfo"

definition emit :: "call \<Rightarrow> Session \<Rightarrow> Session" where
  "emit c s = s\<lparr>trace := trace s @ [c]\<rparr>"

text \<open>A successful \<open>fetchHostInfo\<close> returns a pointer to a new host object.\<close>

definition alloc :: "HostInfo \<Rightarrow> Session \<Rightarrow> ref \<times> Session" where
  "alloc h s = (nextRef s, s\<lparr>heap := (heap s)(nextRef s := h), nextRef := Suc (nextRef s)\<rparr>)"

text \<open>
  Modelled from the spec: the ring is declared outside events.go. Its interface is
  \<open>addHostIfMissing(hostInfo) \<rightarrow> (existing, wasAdded)\<close>, \<open>removeHost(address)\<close> (removing
  an absent host is not an error) and \<open>getHost(address) \<rightarrow> host-or-absent\<close>; a host is
  filed under the string of its address.
\<close>

definition ring_addHostIfMissing :: "env \<Rightarrow> ref \<Rightarrow> Session \<Rightarrow> (ref \<times> bool) \<times> Session" where
  "ring_addHostIfMissing E h s =
     (let s1 = emit (RingAddHostIfMissing h) s;
          addr = ipString E (hpeer (heap s1 h))
      in case ring s1 addr of
           None \<Rightarrow> ((h, True), s1\<lparr>ring := (ring s1)(addr \<mapsto> h)\<rparr>)
         | Some existing \<Rightarrow> ((existing, False), s1))"

definition ring_removeHost :: "string \<Rightarrow> Session \<Rightarrow> Session" where
  "ring_removeHost addr s =
     (let s1 = emit (RingRemoveHost addr) s in s1\<lparr>ring := (ring s1)(addr := None)\<rparr>)"

definition ring_getHost :: "string \<Rightarrow> Session \<Rightarrow> ref option \<times> Session" where
  "ring_getHost addr s = (ring s addr, emit (RingGetHost addr) s)"

text \<open>The two methods of a host that events.go calls; both write through the pointer.\<close>

definition HostInfo_update :: "env \<Rightarrow> ref \<Rightarrow> ref \<Rightarrow> Session \<Rightarrow> Session" where
  "HostInfo_update E existing from s =
     (let s1 = emit (HostUpdate existing from) s
      in s1\<lparr>heap := (heap s1)(existing := hostUpdate E (heap s1 existing) (heap s1 from))\<rparr>)"

definition HostInfo_setState :: "ref \<Rightarrow> nodeState \<Rightarrow> Session \<Rightarrow> Session" where
  "HostInfo_setState h st s =
     (let s1 = emit (HostSetState h st) s
      in s1\<lparr>heap := (heap s1)(h := (heap s1 h)\<lparr>hstate := st\<rparr>)\<rparr>)"

subsection \<open>The lifecycle handlers\<close>

definition handleNewNode :: "env \<Rightarrow> Session \<Rightarrow> IP \<Rightarrow> int \<Rightarrow> Session" where
  "handleNewNode E s host port =
     (case control s of
        None \<Rightarrow> s
      | Some fetchHostInfo \<Rightarrow>
          (let s1 = emit (FetchHostInfo host port) s
           in case fetchHostInfo host port of
                Inl err \<Rightarrow> emit (Log (LogFetchFailed host err)) s1
              | Inr info \<Rightarrow>
                  (let (hostInfo, s2) = alloc info s1;
                       ((existing, ok), s3) = ring_addHostIfMissing E hostInfo s2;
                       (hostInfo', s4) =
                          (if \<not> ok
                           then (existing,
                                 HostInfo_update E existing hostInfo
                                   (emit (Log (LogAlreadyHave hostInfo existing)) s3))
                           else (hostInfo, s3));
                       s5 = emit (PoolAddHost hostInfo') s4
                   in emit RefreshRing s5)))"

definition handleRemovedNode :: "env \<Rightarrow> Session \<Rightarrow> IP \<Rightarrow> int \<Rightarrow> Session" where
  "handleRemovedNode E s ip port =
     (let addr = ipString E ip;
          s1 = emit (PoolRemoveHost addr) s;
          s2 = ring_removeHost addr s1
      in emit RefreshRing s2)"

definition handleNodeUp :: "env \<Rightarrow> Session \<Rightarrow> IP \<Rightarrow> int \<Rightarrow> Session" where
  "handleNodeUp E s ip port =
     (let addr = ipString E ip;
          (host, s1) = ring_getHost addr s
      in case host of
           Some h \<Rightarrow> emit (PoolHostUp h) (HostInfo_setState h NodeUp s1)
         | None \<Rightarrow> handleNewNode E s1 ip port)"

definition handleNodeDown :: "env \<Rightarrow> Session \<Rightarrow> IP \<Rightarrow> int \<Rightarrow> Session" where
  "handleNodeDown E s ip port =
     (let addr = ipString E ip;
          (host, s1) = ring_getHost addr s;
          s2 = (case host of Some h \<Rightarrow> HostInfo_setState h NodeDown s1 | None \<Rightarrow> s1)
      in emit (PoolHostDown addr) s2)"

subsection \<open>Aggregating a batch\<close>

record nodeEvent =
  change :: string
  host :: IP
  port :: int

text \<open>
  One round of the first loop of \<open>handleNodeEvent\<close>. The map holds pointers to events,
  each reachable from its own key only, so writing \<open>event.change\<close> is an update of the
  entry.
\<close>

definition noteChange :: "env \<Rightarrow> (string \<rightharpoonup> nodeEvent) \<Rightarrow> string \<Rightarrow> IP \<Rightarrow> int \<Rightarrow> (string \<rightharpoonup> nodeEvent)" where
  "noteChange E evs c h p =
     (let event = (case evs (ipString E h) of
                     None \<Rightarrow> \<lparr>change = c, host = h, port = p\<rparr>
                   | Some ev \<Rightarrow> ev)
      in evs(ipString E h \<mapsto> event\<lparr>change := c\<rparr>))"

fun collect :: "env \<Rightarrow> (string \<rightharpoonup> nodeEvent) \<Rightarrow> frame \<Rightarrow> (string \<rightharpoonup> nodeEvent)" where
  "collect E evs (topologyChangeEventFrame c h p) = noteChange E evs c h p"
| "collect E evs (statusChangeEventFrame c h p) = noteChange E evs c h p"
| "collect E evs _ = evs"

definition collectAll :: "env \<Rightarrow> frame list \<Rightarrow> (string \<rightharpoonup> nodeEvent)" where
  "collectAll E frames = foldl (collect E) Map.empty frames"

text \<open>One round of the second loop: the log line, then the switch on the change.\<close>

definition handleOne :: "env \<Rightarrow> Session \<Rightarrow> string \<Rightarrow> nodeEvent \<Rightarrow> Session" where
  "handleOne E s addr f =
     (let s1 = emit (Log (LogNodeEvent addr (change f))) s
      in if change f = ''NEW_NODE'' then handleNewNode E s1 (host f) (port f)
         else if change f = ''REMOVED_NODE'' then handleRemovedNode E s1 (host f) (port f)
         else if change f = ''MOVED_NODE'' then s1
         else if change f = ''UP'' then handleNodeUp E s1 (host f) (port f)
         else if change f = ''DOWN'' then handleNodeDown E s1 (host f) (port f)
         else s1)"

text \<open>
  Go ranges over a map in an order of its own choosing. \<open>order\<close> is that choice: the
  keys of the map, each once (see \<open>rangeOrder\<close>).
\<close>

definition rangeOrder :: "(string \<rightharpoonup> nodeEvent) \<Rightarrow> string list \<Rightarrow> bool" where
  "rangeOrder evs order \<longleftrightarrow> distinct order \<and> set order = dom evs"

definition handleEach :: "env \<Rightarrow> (string \<rightharpoonup> nodeEvent) \<Rightarrow> Session \<Rightarrow> string \<Rightarrow> Session" where
  "handleEach E evs s addr = (case evs addr of None \<Rightarrow> s | Some f \<Rightarrow> handleOne E s addr f)"

definition handleNodeEvent :: "env \<Rightarrow> string list \<Rightarrow> Session \<Rightarrow> frame list \<Rightarrow> Session" where
  "handleNodeEvent E order s frames =
     (let events = collectAll E frames
      in foldl (handleEach E events) s order)"

subsection \<open>The dispatch entry point\<close>

text \<open>
  A framer is what \<open>parseFrame\<close> will return for it. The deferred
  \<open>framerPool.Put(framer)\<close> runs on every return.
\<close>

type_synonym framer = "error + frame"

definition handleEvent :: "Session \<Rightarrow> framer \<Rightarrow> Session" where
  "handleEvent s framer =
     emit FramerPoolPut
       (case framer of
          Inl err \<Rightarrow> emit (Log (LogParseError err)) s
        | Inr frame \<Rightarrow>
            (let s1 = emit (Log (LogFrame frame)) s
             in case frame of
                  schemaChangeKeyspace _ \<Rightarrow> s1
                | schemaChangeFunction _ \<Rightarrow> s1
                | schemaChangeTable _ \<Rightarrow> s1
                | topologyChangeEventFrame _ _ _ \<Rightarrow>
                    s1\<lparr>nodeEvents := debounce (nodeEvents s1) frame\<rparr>
                | statusChangeEventFrame _ _ _ \<Rightarrow>
                    s1\<lparr>nodeEvents := debounce (nodeEvents s1) frame\<rparr>
                | otherFrame _ \<Rightarrow> emit (Log (LogInvalidFrame frame)) s1))"

subsection \<open>The behaviour the specification describes\<close>

text \<open>
  The definitions of this subsection follow the words of the specification, to be
  compared with \<open>handleNodeEvent\<close>. A notification is a topology or status change; the
  notifications for an address are those whose host prints as that address, in batch
  order.
\<close>

fun notification :: "frame \<Rightarrow> (string \<times> IP \<times> int) option" where
  "notification (topologyChangeEventFrame c h p) = Some (c, h, p)"
| "notification (statusChangeEventFrame c h p) = Some (c, h, p)"
| "notification _ = None"

definition notificationsFor :: "env \<Rightarrow> string \<Rightarrow> frame list \<Rightarrow> (string \<times> IP \<times> int) list" where
  "notificationsFor E a frames =
     filter (\<lambda>(c, h, p). ipString E h = a) (List.map_filter notification frames)"

text \<open>The resolved event: the change of the last notification, on the host and port of the first.\<close>

definition resolved :: "env \<Rightarrow> frame list \<Rightarrow> string \<Rightarrow> nodeEvent option" where
  "resolved E frames a =
     (case notificationsFor E a frames of
        [] \<Rightarrow> None
      | n # ns \<Rightarrow> Some \<lparr>change = fst (last (n # ns)), host = fst (snd n), port = snd (snd n)\<rparr>)"

text \<open>
  The table of the specification: \<open>NEW_NODE\<close>, \<open>REMOVED_NODE\<close>, \<open>UP\<close> and \<open>DOWN\<close> each
  have a handler, \<open>MOVED_NODE\<close> has none.
\<close>

datatype handler = NewNodeHandler | RemovedNodeHandler | NodeUpHandler | NodeDownHandler

definition handlerFor :: "string \<Rightarrow> handler option" where
  "handlerFor c =
     (if c = ''NEW_NODE'' then Some NewNodeHandler
      else if c = ''REMOVED_NODE'' then Some RemovedNodeHandler
      else if c = ''MOVED_NODE'' then None
      else if c = ''UP'' then Some NodeUpHandler
      else if c = ''DOWN'' then Some NodeDownHandler
      else None)"

fun invoke :: "handler \<Rightarrow> env \<Rightarrow> Session \<Rightarrow> IP \<Rightarrow> int \<Rightarrow> Session" where
  "invoke NewNodeHandler = handleNewNode"
| "invoke RemovedNodeHandler = handleRemovedNode"
| "invoke NodeUpHandler = handleNodeUp"
| "invoke NodeDownHandler = handleNodeDown"

text \<open>What is done for one address: the log line, then at most one handler call.\<close>

definition resolveAndDispatch :: "env \<Rightarrow> frame list \<Rightarrow> Session \<Rightarrow> string \<Rightarrow> Session" where
  "resolveAndDispatch E frames s a =
     (case notificationsFor E a frames of
        [] \<Rightarrow> s
      | n # ns \<Rightarrow>
          (let c = fst (last (n # ns));
               s1 = emit (Log (LogNodeEvent a c)) s
           in case handlerFor c of
                None \<Rightarrow> s1
              | Some H \<Rightarrow> invoke H E s1 (fst (snd n)) (snd (snd n))))"

subsection \<open>A small cluster\<close>

text \<open>
  The addresses of the examples are IPv4. \<open>ipv4String\<close> prints as \<open>net.IP.String\<close> does
  on an empty slice, on four bytes and on the sixteen bytes of an IPv4-mapped address:
  \<open><nil>\<close> for the first, dotted decimal for the other two. The IPv6 text form and the
  form for slices of another length are not written out: such a slice prints as \<open>?\<close>,
  and no example uses one.
\<close>

definition digitChar :: "nat \<Rightarrow> char" where
  "digitChar d = ''0123456789'' ! d"

definition decimalByte :: "8 word \<Rightarrow> string" where
  "decimalByte b =
     (let n = unat b
      in if n < 10 then [digitChar n]
         else if n < 100 then [digitChar (n div 10), digitChar (n mod 10)]
         else [digitChar (n div 100), digitChar (n div 10 mod 10), digitChar (n mod 10)])"

definition dotted :: "8 word \<Rightarrow> 8 word \<Rightarrow> 8 word \<Rightarrow> 8 word \<Rightarrow> string" where
  "dotted a b c d =
     decimalByte a @ ''.'' @ decimalByte b @ ''.'' @ decimalByte c @ ''.'' @ decimalByte d"

definition ipv4String :: "IP \<Rightarrow> string" where
  "ipv4String ip =
     (case ip of
        [] \<Rightarrow> ''<nil>''
      | [a, b, c, d] \<Rightarrow> dotted a b c d
      | _ \<Rightarrow>
          (if length ip = 16 \<and> take 10 ip = replicate 10 0 \<and> ip ! 10 = 255 \<and> ip ! 11 = 255
           then dotted (ip ! 12) (ip ! 13) (ip ! 14) (ip ! 15)
           else ''?''))"

text \<open>
  The ring knows 10.0.0.1 (host object 0, marked down); the control connection cannot
  reach 10.0.0.2 and answers for every other address. An update of a host takes the
  fetched information and keeps the state the host had.
\<close>

definition exampleEnv :: env where
  "exampleEnv =
     \<lparr>ipString = ipv4String,
      hostUpdate = (\<lambda>old new. new\<lparr>hstate := hstate old\<rparr>)\<rparr>"

definition exampleHost :: HostInfo where
  "exampleHost = \<lparr>hpeer = [10, 0, 0, 1], hport = 9042, hstate = NodeDown, hmeta = ''dc1''\<rparr>"

definition exampleFetch :: "IP \<Rightarrow> int \<Rightarrow> error + HostInfo" where
  "exampleFetch ip p =
     (if ip = [10, 0, 0, 2] then Inl (Error ''timeout'')
      else Inr \<lparr>hpeer = ip, hport = p, hstate = NodeUp, hmeta = ''dc2''\<rparr>)"

definition exampleSession :: Session where
  "exampleSession =
     \<lparr>control = Some exampleFetch,
      heap = (\<lambda>r. exampleHost),
      nextRef = 1,
      ring = [''10.0.0.1'' \<mapsto> 0],
      nodeEvents = newEventDeouncer ''nodes'',
      trace = []\<rparr>"

section \<open>Properties\<close>

subsection \<open>The debouncer\<close>

lemma events_debounce:
  "events (debounce e fr) = (if length (events e) < 1000 then events e @ [fr] else events e)"
  by (simp add: debounce_def eventBufferSize_def Let_def)

lemma spawned_debounce: "spawned (debounce e fr) = spawned e"
  by (simp add: debounce_def Let_def)

lemma debounceAll_snoc: "debounceAll e (frs @ [fr]) = debounce (debounceAll e frs) fr"
  by (simp add: debounceAll_def)

lemma events_debounceAll:
  "length (events e) \<le> 1000 \<Longrightarrow> events (debounceAll e frs) = take 1000 (events e @ frs)"
proof (induction frs rule: rev_induct)
  case Nil
  then show ?case by (simp add: debounceAll_def)
next
  case (snoc fr frs)
  then have IH: "events (debounceAll e frs) = take 1000 (events e @ frs)" by simp
  show ?case
  proof (cases "length (events e @ frs) < 1000")
    case True
    then show ?thesis using IH by (simp add: debounceAll_snoc events_debounce)
  next
    case False
    then show ?thesis using IH by (simp add: debounceAll_snoc events_debounce)
  qed
qed

lemma spawned_debounceAll: "spawned (debounceAll e frs) = spawned e"
  by (induction frs rule: rev_induct) (simp_all add: debounceAll_def spawned_debounce)

lemma flush_cases:
  "events (flush e) = []
   \<and> spawned (flush e) = (if events e = [] then spawned e else spawned e @ [events e])"
  by (simp add: flush_def Let_def)

text \<open>
  C2. Starting from an empty pending buffer, after the frames \<open>frs\<close> have been submitted
  with no flush in between, the buffer holds the first \<open>min (length frs) 1000\<close> of them in
  submission order and the callback has not been started; if any frame was submitted,
  the next flush starts the callback once, on exactly those frames, and empties the
  buffer.
\<close>

theorem debounce_then_flush:
  assumes "events e = []"
  shows "events (debounceAll e frs) = take 1000 frs
       \<and> length (events (debounceAll e frs)) = min (length frs) 1000
       \<and> spawned (debounceAll e frs) = spawned e
       \<and> (frs \<noteq> [] \<longrightarrow>
            spawned (flush (debounceAll e frs)) = spawned e @ [take 1000 frs]
          \<and> events (flush (debounceAll e frs)) = [])"
proof -
  have ev: "events (debounceAll e frs) = take 1000 frs"
    using events_debounceAll [of e frs] assms by simp
  have sp: "spawned (debounceAll e frs) = spawned e"
    by (rule spawned_debounceAll)
  show ?thesis using ev sp flush_cases [of "debounceAll e frs"] by auto
qed

theorem debounce_then_flush_witness:
  "events (newEventDeouncer ''nodes'') = []
   \<and> events (debounceAll (newEventDeouncer ''nodes'')
        [schemaChangeTable ''a'', otherFrame ''b'']) = [schemaChangeTable ''a'', otherFrame ''b'']
   \<and> spawned (flush (debounceAll (newEventDeouncer ''nodes'')
        [schemaChangeTable ''a'', otherFrame ''b''])) = [[schemaChangeTable ''a'', otherFrame ''b'']]
   \<and> events (debounceAll (newEventDeouncer ''nodes'') (replicate 1005 (otherFrame ''c'')))
       = replicate 1000 (otherFrame ''c'')"
proof -
  have empty: "events (newEventDeouncer ''nodes'') = []"
    by (simp add: newEventDeouncer_def)
  have spawned0: "spawned (newEventDeouncer ''nodes'') = []"
    by (simp add: newEventDeouncer_def)
  show ?thesis
    using empty spawned0
      debounce_then_flush [OF empty, of "[schemaChangeTable ''a'', otherFrame ''b'']"]
      debounce_then_flush [OF empty, of "replicate 1005 (otherFrame ''c'')"]
    by simp
qed

text \<open>
  C8. A flush of an empty pending buffer starts no callback and leaves the buffer as it
  was; a flush that starts the callback had a non-empty buffer and hands over exactly
  that buffer.
\<close>

theorem flush_empty_no_callback:
  "(events e = [] \<longrightarrow> spawned (flush e) = spawned e \<and> events (flush e) = events e)
   \<and> (spawned (flush e) \<noteq> spawned e \<longrightarrow>
        events e \<noteq> [] \<and> spawned (flush e) = spawned e @ [events e])"
  by (simp add: flush_def Let_def)

theorem flush_empty_no_callback_witness:
  "events (newEventDeouncer ''nodes'') = []
   \<and> spawned (flush (newEventDeouncer ''nodes'')) = []
   \<and> events (flush (newEventDeouncer ''nodes'')) = []
   \<and> spawned (flush (debounce (newEventDeouncer ''nodes'') (otherFrame ''a'')))
       \<noteq> spawned (debounce (newEventDeouncer ''nodes'') (otherFrame ''a''))
   \<and> spawned (flush (debounce (newEventDeouncer ''nodes'') (otherFrame ''a'')))
       = [[otherFrame ''a'']]"
  using flush_empty_no_callback [of "newEventDeouncer ''nodes''"]
    flush_empty_no_callback [of "debounce (newEventDeouncer ''nodes'') (otherFrame ''a'')"]
  by (simp add: newEventDeouncer_def debounce_def eventBufferSize_def flush_def Let_def)

subsection \<open>The lifecycle handlers\<close>

lemmas collaborator_defs =
  emit_def alloc_def ring_addHostIfMissing_def ring_removeHost_def ring_getHost_def
  HostInfo_update_def HostInfo_setState_def

lemmas ipv4String_defs =
  ipv4String_def dotted_def decimalByte_def digitChar_def

lemmas example_defs =
  exampleEnv_def ipv4String_defs exampleHost_def exampleFetch_def exampleSession_def
  newEventDeouncer_def

text \<open>
  C3. As stated, the claim has every address that the ring does not hold go through
  \<open>fetchHostInfo\<close>, \<open>ring.addHostIfMissing\<close> and \<open>pool.addHost\<close>. It does not:
  \<open>handleNewNode\<close> returns at once when there is no control connection, and after the
  log line when the fetch fails. In the example, 10.0.0.3 without a control
  connection costs the lookup alone, and 10.0.0.2, which the control connection cannot
  reach, the lookup, the fetch and the log line; neither reaches the ring or the pool.
\<close>

theorem handleNodeUp_absent_without_fetch_counterexample:
  "ring (exampleSession\<lparr>control := None\<rparr>) (ipString exampleEnv [10, 0, 0, 3]) = None
   \<and> handleNodeUp exampleEnv (exampleSession\<lparr>control := None\<rparr>) [10, 0, 0, 3] 9042
       = exampleSession\<lparr>control := None, trace := [RingGetHost ''10.0.0.3'']\<rparr>
   \<and> FetchHostInfo [10, 0, 0, 3] 9042
       \<notin> set (trace (handleNodeUp exampleEnv (exampleSession\<lparr>control := None\<rparr>)
                        [10, 0, 0, 3] 9042))
   \<and> ring exampleSession (ipString exampleEnv [10, 0, 0, 2]) = None
   \<and> handleNodeUp exampleEnv exampleSession [10, 0, 0, 2] 9042
       = exampleSession\<lparr>trace := [RingGetHost ''10.0.0.2'', FetchHostInfo [10, 0, 0, 2] 9042,
                                    Log (LogFetchFailed [10, 0, 0, 2] (Error ''timeout''))]\<rparr>
   \<and> ring (handleNodeUp exampleEnv exampleSession [10, 0, 0, 2] 9042) = ring exampleSession"
  by (simp add: handleNodeUp_def handleNewNode_def collaborator_defs example_defs Let_def)

text \<open>
  C3, amended. \<open>handleNodeUp\<close> looks the address up in the ring. When the ring holds a
  host for it, the host is marked up, the pool is told \<open>hostUp\<close>, and nothing else
  happens: no fetch, no \<open>addHostIfMissing\<close>, no \<open>addHost\<close>. When the ring holds none,
  the result is that of \<open>handleNewNode\<close> run after the lookup. That run calls
  \<open>fetchHostInfo\<close>, \<open>ring.addHostIfMissing\<close> and \<open>pool.addHost\<close>, in this order, when
  there is a control connection and its fetch succeeds; without a control connection it
  does nothing, and on a failed fetch it does the fetch and the log line only.
\<close>

theorem handleNodeUp_found_or_new:
  "(ring s (ipString E ip) = Some h \<longrightarrow>
      handleNodeUp E s ip p =
        s\<lparr>heap := (heap s)(h := (heap s h)\<lparr>hstate := NodeUp\<rparr>),
          trace := trace s @ [RingGetHost (ipString E ip), HostSetState h NodeUp, PoolHostUp h]\<rparr>)
   \<and> (ring s (ipString E ip) = None \<longrightarrow>
      handleNodeUp E s ip p =
        handleNewNode E (s\<lparr>trace := trace s @ [RingGetHost (ipString E ip)]\<rparr>) ip p)
   \<and> (ring s (ipString E ip) = None \<and> control s = Some fetch \<and> fetch ip p = Inr info \<longrightarrow>
        (\<exists>mid registered.
           trace (handleNodeUp E s ip p) =
             trace s @ [RingGetHost (ipString E ip), FetchHostInfo ip p,
                        RingAddHostIfMissing (nextRef s)] @ mid @
                       [PoolAddHost registered, RefreshRing]))
   \<and> (ring s (ipString E ip) = None \<and> control s = None \<longrightarrow>
        handleNodeUp E s ip p = s\<lparr>trace := trace s @ [RingGetHost (ipString E ip)]\<rparr>)
   \<and> (ring s (ipString E ip) = None \<and> control s = Some fetch \<and> fetch ip p = Inl err \<longrightarrow>
        handleNodeUp E s ip p =
          s\<lparr>trace := trace s @ [RingGetHost (ipString E ip), FetchHostInfo ip p,
                                Log (LogFetchFailed ip err)]\<rparr>)"
  by (simp add: handleNodeUp_def handleNewNode_def collaborator_defs Let_def split: option.split)

theorem handleNodeUp_found_or_new_witness:
  "ring exampleSession (ipString exampleEnv [10, 0, 0, 1]) = Some 0
   \<and> trace (handleNodeUp exampleEnv exampleSession [10, 0, 0, 1] 9042)
       = [RingGetHost ''10.0.0.1'', HostSetState 0 NodeUp, PoolHostUp 0]
   \<and> hstate (heap (handleNodeUp exampleEnv exampleSession [10, 0, 0, 1] 9042) 0) = NodeUp
   \<and> ring exampleSession (ipString exampleEnv [10, 0, 0, 3]) = None
   \<and> control exampleSession = Some exampleFetch
   \<and> exampleFetch [10, 0, 0, 3] 9042
       = Inr \<lparr>hpeer = [10, 0, 0, 3], hport = 9042, hstate = NodeUp, hmeta = ''dc2''\<rparr>
   \<and> handleNodeUp exampleEnv exampleSession [10, 0, 0, 3] 9042
       = handleNewNode exampleEnv
           (exampleSession\<lparr>trace := [RingGetHost ''10.0.0.3'']\<rparr>) [10, 0, 0, 3] 9042
   \<and> trace (handleNodeUp exampleEnv exampleSession [10, 0, 0, 3] 9042)
       = [RingGetHost ''10.0.0.3'', FetchHostInfo [10, 0, 0, 3] 9042, RingAddHostIfMissing 1,
          PoolAddHost 1, RefreshRing]
   \<and> control (exampleSession\<lparr>control := None\<rparr>) = None
   \<and> ring (exampleSession\<lparr>control := None\<rparr>) (ipString exampleEnv [10, 0, 0, 3]) = None
   \<and> trace (handleNodeUp exampleEnv (exampleSession\<lparr>control := None\<rparr>) [10, 0, 0, 3] 9042)
       = [RingGetHost ''10.0.0.3'']
   \<and> ring exampleSession (ipString exampleEnv [10, 0, 0, 2]) = None
   \<and> exampleFetch [10, 0, 0, 2] 9042 = Inl (Error ''timeout'')
   \<and> trace (handleNodeUp exampleEnv exampleSession [10, 0, 0, 2] 9042)
       = [RingGetHost ''10.0.0.2'', FetchHostInfo [10, 0, 0, 2] 9042,
          Log (LogFetchFailed [10, 0, 0, 2] (Error ''timeout''))]"
proof -
  let ?nc = "exampleSession\<lparr>control := None\<rparr>"
  have nil: "control ?nc = None" by simp
  have absent_nc: "ring ?nc (ipString exampleEnv [10, 0, 0, 3]) = None"
    by (simp add: example_defs)
  have absent2: "ring exampleSession (ipString exampleEnv [10, 0, 0, 2]) = None"
    by (simp add: example_defs)
  have unreachable: "exampleFetch [10, 0, 0, 2] 9042 = Inl (Error ''timeout'')"
    by (simp add: example_defs)
  have found: "ring exampleSession (ipString exampleEnv [10, 0, 0, 1]) = Some 0"
    by (simp add: example_defs)
  have absent: "ring exampleSession (ipString exampleEnv [10, 0, 0, 3]) = None"
    by (simp add: example_defs)
  have ctl: "control exampleSession = Some exampleFetch"
    by (simp add: example_defs)
  have fetched: "exampleFetch [10, 0, 0, 3] 9042
       = Inr \<lparr>hpeer = [10, 0, 0, 3], hport = 9042, hstate = NodeUp, hmeta = ''dc2''\<rparr>"
    by (simp add: example_defs)
  have up: "handleNodeUp exampleEnv exampleSession [10, 0, 0, 1] 9042 =
        exampleSession\<lparr>heap := (heap exampleSession)(0 := (heap exampleSession 0)\<lparr>hstate := NodeUp\<rparr>),
          trace := trace exampleSession @
            [RingGetHost (ipString exampleEnv [10, 0, 0, 1]), HostSetState 0 NodeUp, PoolHostUp 0]\<rparr>"
    using handleNodeUp_found_or_new
            [where s = exampleSession and E = exampleEnv and ip = "[10, 0, 0, 1]" and h = 0
               and p = 9042] found
    by blast
  have new: "handleNodeUp exampleEnv exampleSession [10, 0, 0, 3] 9042 =
        handleNewNode exampleEnv
          (exampleSession\<lparr>trace := trace exampleSession
             @ [RingGetHost (ipString exampleEnv [10, 0, 0, 3])]\<rparr>) [10, 0, 0, 3] 9042"
    using handleNodeUp_found_or_new
            [where s = exampleSession and E = exampleEnv and ip = "[10, 0, 0, 3]"
               and p = 9042] absent
    by blast
  have t0: "trace exampleSession = []" by (simp add: example_defs)
  have a1: "ipString exampleEnv [10, 0, 0, 1] = ''10.0.0.1''" by (simp add: example_defs)
  have a2: "ipString exampleEnv [10, 0, 0, 2] = ''10.0.0.2''" by (simp add: example_defs)
  have a3: "ipString exampleEnv [10, 0, 0, 3] = ''10.0.0.3''" by (simp add: example_defs)
  have n1: "nextRef exampleSession = 1" by (simp add: example_defs)
  have path: "\<exists>mid registered.
      trace (handleNodeUp exampleEnv exampleSession [10, 0, 0, 3] 9042) =
        trace exampleSession @ [RingGetHost (ipString exampleEnv [10, 0, 0, 3]),
          FetchHostInfo [10, 0, 0, 3] 9042, RingAddHostIfMissing (nextRef exampleSession)]
        @ mid @ [PoolAddHost registered, RefreshRing]"
    using handleNodeUp_found_or_new
            [where s = exampleSession and E = exampleEnv and ip = "[10, 0, 0, 3]"
               and p = 9042 and fetch = exampleFetch
               and info = "\<lparr>hpeer = [10, 0, 0, 3], hport = 9042, hstate = NodeUp,
                                hmeta = ''dc2''\<rparr>"]
          absent ctl fetched
    by blast
  have path_trace: "trace (handleNodeUp exampleEnv exampleSession [10, 0, 0, 3] 9042)
       = [RingGetHost ''10.0.0.3'', FetchHostInfo [10, 0, 0, 3] 9042, RingAddHostIfMissing 1,
          PoolAddHost 1, RefreshRing]"
    by (simp add: handleNodeUp_def handleNewNode_def collaborator_defs example_defs Let_def)
  have lookup_only: "handleNodeUp exampleEnv ?nc [10, 0, 0, 3] 9042
       = ?nc\<lparr>trace := trace ?nc @ [RingGetHost (ipString exampleEnv [10, 0, 0, 3])]\<rparr>"
    using handleNodeUp_found_or_new
            [where s = ?nc and E = exampleEnv and ip = "[10, 0, 0, 3]" and p = 9042]
          absent_nc nil
    by blast
  have fetch_failed: "handleNodeUp exampleEnv exampleSession [10, 0, 0, 2] 9042
       = exampleSession\<lparr>trace := trace exampleSession @
           [RingGetHost (ipString exampleEnv [10, 0, 0, 2]), FetchHostInfo [10, 0, 0, 2] 9042,
            Log (LogFetchFailed [10, 0, 0, 2] (Error ''timeout''))]\<rparr>"
    using handleNodeUp_found_or_new
            [where s = exampleSession and E = exampleEnv and ip = "[10, 0, 0, 2]" and p = 9042
               and fetch = exampleFetch and err = "Error ''timeout''"]
          absent2 ctl unreachable
    by blast
  have c1: "trace (handleNodeUp exampleEnv ?nc [10, 0, 0, 3] 9042) = [RingGetHost ''10.0.0.3'']"
    by (simp add: lookup_only a3 t0)
  have c2: "trace (handleNodeUp exampleEnv exampleSession [10, 0, 0, 2] 9042)
       = [RingGetHost ''10.0.0.2'', FetchHostInfo [10, 0, 0, 2] 9042,
          Log (LogFetchFailed [10, 0, 0, 2] (Error ''timeout''))]"
    by (simp add: fetch_failed a2 t0)
  have c0: "trace (handleNodeUp exampleEnv exampleSession [10, 0, 0, 1] 9042)
       = [RingGetHost ''10.0.0.1'', HostSetState 0 NodeUp, PoolHostUp 0]
     \<and> hstate (heap (handleNodeUp exampleEnv exampleSession [10, 0, 0, 1] 9042) 0) = NodeUp"
    by (simp add: up t0 a1)
  have c3: "handleNodeUp exampleEnv exampleSession [10, 0, 0, 3] 9042
       = handleNewNode exampleEnv
           (exampleSession\<lparr>trace := [RingGetHost ''10.0.0.3'']\<rparr>) [10, 0, 0, 3] 9042"
    using new by (simp add: t0 a3)
  from found c0 absent ctl fetched c3 path_trace nil absent_nc c1 absent2 unreachable c2
  show ?thesis by blast
qed

text \<open>
  C4. Without a control connection \<open>handleNewNode\<close> leaves the session as it is. When
  \<open>fetchHostInfo\<close> fails, the session differs only by the one fetch and the log line in
  the trace: the ring, the hosts and the pool are untouched and the fetch is not
  repeated.
\<close>

theorem handleNewNode_no_control_or_fetch_error:
  "(control s = None \<longrightarrow> handleNewNode E s ip p = s)
   \<and> (control s = Some fetch \<and> fetch ip p = Inl err \<longrightarrow>
        handleNewNode E s ip p =
          s\<lparr>trace := trace s @ [FetchHostInfo ip p, Log (LogFetchFailed ip err)]\<rparr>)"
  by (simp add: handleNewNode_def collaborator_defs Let_def)

theorem handleNewNode_no_control_or_fetch_error_witness:
  "control (exampleSession\<lparr>control := None\<rparr>) = None
   \<and> handleNewNode exampleEnv (exampleSession\<lparr>control := None\<rparr>) [10, 0, 0, 3] 9042
       = exampleSession\<lparr>control := None\<rparr>
   \<and> control exampleSession = Some exampleFetch
   \<and> exampleFetch [10, 0, 0, 2] 9042 = Inl (Error ''timeout'')
   \<and> handleNewNode exampleEnv exampleSession [10, 0, 0, 2] 9042
       = exampleSession\<lparr>trace := [FetchHostInfo [10, 0, 0, 2] 9042,
                                    Log (LogFetchFailed [10, 0, 0, 2] (Error ''timeout''))]\<rparr>"
proof -
  have nil: "control (exampleSession\<lparr>control := None\<rparr>) = None" by simp
  have ctl: "control exampleSession = Some exampleFetch" by (simp add: example_defs)
  have failed: "exampleFetch [10, 0, 0, 2] 9042 = Inl (Error ''timeout'')"
    by (simp add: example_defs)
  have t0: "trace exampleSession = []" by (simp add: example_defs)
  have noop: "handleNewNode exampleEnv (exampleSession\<lparr>control := None\<rparr>) [10, 0, 0, 3] 9042
       = exampleSession\<lparr>control := None\<rparr>"
    using handleNewNode_no_control_or_fetch_error
            [where s = "exampleSession\<lparr>control := None\<rparr>" and E = exampleEnv
               and ip = "[10, 0, 0, 3]" and p = 9042] nil
    by blast
  have abort: "handleNewNode exampleEnv exampleSession [10, 0, 0, 2] 9042
       = exampleSession\<lparr>trace := trace exampleSession @ [FetchHostInfo [10, 0, 0, 2] 9042,
                                    Log (LogFetchFailed [10, 0, 0, 2] (Error ''timeout''))]\<rparr>"
    using handleNewNode_no_control_or_fetch_error
            [where s = exampleSession and E = exampleEnv and ip = "[10, 0, 0, 2]" and p = 9042
               and fetch = exampleFetch and err = "Error ''timeout''"] ctl failed
    by blast
  show ?thesis using ctl failed by (simp add: noop abort t0)
qed

text \<open>
  C5. \<open>handleNodeDown\<close> always ends by telling the pool \<open>hostDown\<close> for the address.
  When the ring holds a host for the address, that host is marked down first; when it
  holds none, no host is touched and nothing fails.
\<close>

theorem handleNodeDown_always_notifies_pool:
  "(ring s (ipString E ip) = Some h \<longrightarrow>
      handleNodeDown E s ip p =
        s\<lparr>heap := (heap s)(h := (heap s h)\<lparr>hstate := NodeDown\<rparr>),
          trace := trace s @ [RingGetHost (ipString E ip), HostSetState h NodeDown,
                              PoolHostDown (ipString E ip)]\<rparr>)
   \<and> (ring s (ipString E ip) = None \<longrightarrow>
      handleNodeDown E s ip p =
        s\<lparr>trace := trace s @ [RingGetHost (ipString E ip), PoolHostDown (ipString E ip)]\<rparr>)
   \<and> last (trace (handleNodeDown E s ip p)) = PoolHostDown (ipString E ip)"
  by (simp add: handleNodeDown_def collaborator_defs Let_def split: option.split)

theorem handleNodeDown_always_notifies_pool_witness:
  "ring exampleSession (ipString exampleEnv [10, 0, 0, 1]) = Some 0
   \<and> trace (handleNodeDown exampleEnv exampleSession [10, 0, 0, 1] 9042)
       = [RingGetHost ''10.0.0.1'', HostSetState 0 NodeDown, PoolHostDown ''10.0.0.1'']
   \<and> ring exampleSession (ipString exampleEnv [10, 0, 0, 3]) = None
   \<and> handleNodeDown exampleEnv exampleSession [10, 0, 0, 3] 9042
       = exampleSession\<lparr>trace := [RingGetHost ''10.0.0.3'', PoolHostDown ''10.0.0.3'']\<rparr>
   \<and> hstate (heap (exampleSession\<lparr>heap := (\<lambda>r. exampleHost\<lparr>hstate := NodeUp\<rparr>)\<rparr>) 0) = NodeUp
   \<and> hstate (heap (handleNodeDown exampleEnv
                      (exampleSession\<lparr>heap := (\<lambda>r. exampleHost\<lparr>hstate := NodeUp\<rparr>)\<rparr>)
                      [10, 0, 0, 1] 9042) 0) = NodeDown"
proof -
  let ?up = "exampleSession\<lparr>heap := (\<lambda>r. exampleHost\<lparr>hstate := NodeUp\<rparr>)\<rparr>"
  have found_up: "ring ?up (ipString exampleEnv [10, 0, 0, 1]) = Some 0"
    by (simp add: example_defs)
  have was_up: "hstate (heap ?up 0) = NodeUp" by simp
  have now_down: "hstate (heap (handleNodeDown exampleEnv ?up [10, 0, 0, 1] 9042) 0) = NodeDown"
  proof -
    have "handleNodeDown exampleEnv ?up [10, 0, 0, 1] 9042 =
        ?up\<lparr>heap := (heap ?up)(0 := (heap ?up 0)\<lparr>hstate := NodeDown\<rparr>),
          trace := trace ?up @
            [RingGetHost (ipString exampleEnv [10, 0, 0, 1]), HostSetState 0 NodeDown,
             PoolHostDown (ipString exampleEnv [10, 0, 0, 1])]\<rparr>"
      using handleNodeDown_always_notifies_pool
              [where s = ?up and E = exampleEnv and ip = "[10, 0, 0, 1]" and h = 0 and p = 9042]
            found_up
      by blast
    then show ?thesis by simp
  qed
  have found: "ring exampleSession (ipString exampleEnv [10, 0, 0, 1]) = Some 0"
    by (simp add: example_defs)
  have absent: "ring exampleSession (ipString exampleEnv [10, 0, 0, 3]) = None"
    by (simp add: example_defs)
  have t0: "trace exampleSession = []" by (simp add: example_defs)
  have a1: "ipString exampleEnv [10, 0, 0, 1] = ''10.0.0.1''" by (simp add: example_defs)
  have a3: "ipString exampleEnv [10, 0, 0, 3] = ''10.0.0.3''" by (simp add: example_defs)
  have down: "handleNodeDown exampleEnv exampleSession [10, 0, 0, 1] 9042 =
        exampleSession\<lparr>heap := (heap exampleSession)(0 := (heap exampleSession 0)\<lparr>hstate := NodeDown\<rparr>),
          trace := trace exampleSession @
            [RingGetHost (ipString exampleEnv [10, 0, 0, 1]), HostSetState 0 NodeDown,
             PoolHostDown (ipString exampleEnv [10, 0, 0, 1])]\<rparr>"
    using handleNodeDown_always_notifies_pool
            [where s = exampleSession and E = exampleEnv and ip = "[10, 0, 0, 1]" and h = 0
               and p = 9042] found
    by blast
  have gone: "handleNodeDown exampleEnv exampleSession [10, 0, 0, 3] 9042 =
        exampleSession\<lparr>trace := trace exampleSession @
            [RingGetHost (ipString exampleEnv [10, 0, 0, 3]),
             PoolHostDown (ipString exampleEnv [10, 0, 0, 3])]\<rparr>"
    using handleNodeDown_always_notifies_pool
            [where s = exampleSession and E = exampleEnv and ip = "[10, 0, 0, 3]"
               and p = 9042] absent
    by blast
  show ?thesis using found absent was_up now_down by (simp add: down gone t0 a1 a3)
qed

text \<open>
  C6. After a successful fetch, \<open>handleNewNode\<close> files the fetched host in the ring when
  the ring has none for its address; when the ring has one, the ring is left as it is,
  the existing host object is updated in place from the fetched one, and the handler
  goes on with the existing object. Either way the host it goes on with is then added
  to the pool, and after that the ring refresh is requested.
\<close>

theorem handleNewNode_adds_or_updates:
  assumes "control s = Some fetch" and "fetch ip p = Inr info"
  shows "(ring s (ipString E (hpeer info)) = None \<longrightarrow>
            handleNewNode E s ip p =
              s\<lparr>heap := (heap s)(nextRef s := info),
                nextRef := Suc (nextRef s),
                ring := (ring s)(ipString E (hpeer info) \<mapsto> nextRef s),
                trace := trace s @ [FetchHostInfo ip p, RingAddHostIfMissing (nextRef s),
                                    PoolAddHost (nextRef s), RefreshRing]\<rparr>)
       \<and> (ring s (ipString E (hpeer info)) = Some existing \<and> existing < nextRef s \<longrightarrow>
            handleNewNode E s ip p =
              s\<lparr>heap := (heap s)(nextRef s := info,
                                  existing := hostUpdate E (heap s existing) info),
                nextRef := Suc (nextRef s),
                trace := trace s @ [FetchHostInfo ip p, RingAddHostIfMissing (nextRef s),
                                    Log (LogAlreadyHave (nextRef s) existing),
                                    HostUpdate existing (nextRef s),
                                    PoolAddHost existing, RefreshRing]\<rparr>)"
  using assms
  by (auto simp add: handleNewNode_def collaborator_defs Let_def)

theorem handleNewNode_adds_or_updates_witness:
  "control exampleSession = Some exampleFetch
   \<and> exampleFetch [10, 0, 0, 3] 9042
       = Inr \<lparr>hpeer = [10, 0, 0, 3], hport = 9042, hstate = NodeUp, hmeta = ''dc2''\<rparr>
   \<and> ring exampleSession ''10.0.0.3'' = None
   \<and> ring (handleNewNode exampleEnv exampleSession [10, 0, 0, 3] 9042)
       = [''10.0.0.1'' \<mapsto> 0, ''10.0.0.3'' \<mapsto> 1]
   \<and> trace (handleNewNode exampleEnv exampleSession [10, 0, 0, 3] 9042)
       = [FetchHostInfo [10, 0, 0, 3] 9042, RingAddHostIfMissing 1, PoolAddHost 1, RefreshRing]
   \<and> exampleFetch [10, 0, 0, 1] 7000
       = Inr \<lparr>hpeer = [10, 0, 0, 1], hport = 7000, hstate = NodeUp, hmeta = ''dc2''\<rparr>
   \<and> ring exampleSession ''10.0.0.1'' = Some 0
   \<and> 0 < nextRef exampleSession
   \<and> ring (handleNewNode exampleEnv exampleSession [10, 0, 0, 1] 7000) = ring exampleSession
   \<and> heap (handleNewNode exampleEnv exampleSession [10, 0, 0, 1] 7000) 0
       = \<lparr>hpeer = [10, 0, 0, 1], hport = 7000, hstate = NodeDown, hmeta = ''dc2''\<rparr>
   \<and> trace (handleNewNode exampleEnv exampleSession [10, 0, 0, 1] 7000)
       = [FetchHostInfo [10, 0, 0, 1] 7000, RingAddHostIfMissing 1, Log (LogAlreadyHave 1 0),
          HostUpdate 0 1, PoolAddHost 0, RefreshRing]"
proof -
  let ?new = "\<lparr>hpeer = [10, 0, 0, 3], hport = 9042, hstate = NodeUp, hmeta = ''dc2''\<rparr>"
  let ?known = "\<lparr>hpeer = [10, 0, 0, 1], hport = 7000, hstate = NodeUp, hmeta = ''dc2''\<rparr>"
  have ctl: "control exampleSession = Some exampleFetch" by (simp add: example_defs)
  have f3: "exampleFetch [10, 0, 0, 3] 9042 = Inr ?new" by (simp add: example_defs)
  have f1: "exampleFetch [10, 0, 0, 1] 7000 = Inr ?known" by (simp add: example_defs)
  have r3: "ring exampleSession (ipString exampleEnv (hpeer ?new)) = None"
    by (simp add: example_defs)
  have r1: "ring exampleSession (ipString exampleEnv (hpeer ?known)) = Some 0"
    by (simp add: example_defs)
  have n: "0 < nextRef exampleSession" by (simp add: example_defs)
  have added: "handleNewNode exampleEnv exampleSession [10, 0, 0, 3] 9042 =
      exampleSession\<lparr>heap := (heap exampleSession)(nextRef exampleSession := ?new),
        nextRef := Suc (nextRef exampleSession),
        ring := (ring exampleSession)(ipString exampleEnv (hpeer ?new) \<mapsto> nextRef exampleSession),
        trace := trace exampleSession @
          [FetchHostInfo [10, 0, 0, 3] 9042, RingAddHostIfMissing (nextRef exampleSession),
           PoolAddHost (nextRef exampleSession), RefreshRing]\<rparr>"
    using handleNewNode_adds_or_updates [OF ctl f3, where E = exampleEnv] r3 by blast
  have updated: "handleNewNode exampleEnv exampleSession [10, 0, 0, 1] 7000 =
      exampleSession\<lparr>heap := (heap exampleSession)(nextRef exampleSession := ?known,
                          0 := hostUpdate exampleEnv (heap exampleSession 0) ?known),
        nextRef := Suc (nextRef exampleSession),
        trace := trace exampleSession @
          [FetchHostInfo [10, 0, 0, 1] 7000, RingAddHostIfMissing (nextRef exampleSession),
           Log (LogAlreadyHave (nextRef exampleSession) 0),
           HostUpdate 0 (nextRef exampleSession), PoolAddHost 0, RefreshRing]\<rparr>"
    using handleNewNode_adds_or_updates [OF ctl f1, where E = exampleEnv and existing = 0] r1 n
    by blast
  show ?thesis
    using ctl f3 f1 by (simp add: added updated) (simp add: example_defs)
qed

text \<open>
  C10. \<open>handleRemovedNode\<close> and \<open>handleNodeDown\<close> do not depend on the port: from the
  same session and for the same IP, two ports give the same session, trace included.
  The removal reaches the pool and the ring under the address string alone.
\<close>

theorem removed_and_down_ignore_port:
  "handleRemovedNode E s ip p = handleRemovedNode E s ip p'
   \<and> handleNodeDown E s ip p = handleNodeDown E s ip p'
   \<and> handleRemovedNode E s ip p =
       s\<lparr>ring := (ring s)(ipString E ip := None),
         trace := trace s @ [PoolRemoveHost (ipString E ip), RingRemoveHost (ipString E ip),
                             RefreshRing]\<rparr>"
  by (simp add: handleRemovedNode_def handleNodeDown_def collaborator_defs Let_def)

subsection \<open>Aggregation\<close>

lemma notificationsFor_Nil: "notificationsFor E a [] = []"
  by (simp add: notificationsFor_def map_filter_simps)

lemma notificationsFor_Cons:
  "notificationsFor E a (fr # frames) =
     (case notification fr of
        None \<Rightarrow> notificationsFor E a frames
      | Some (c, h, p) \<Rightarrow>
          (if ipString E h = a then (c, h, p) # notificationsFor E a frames
           else notificationsFor E a frames))"
  by (simp add: notificationsFor_def map_filter_simps split: option.split)

lemma noteChange_apply:
  "noteChange E evs c h p a =
     (if a = ipString E h
      then Some (case evs a of None \<Rightarrow> \<lparr>change = c, host = h, port = p\<rparr>
                            | Some ev \<Rightarrow> ev\<lparr>change := c\<rparr>)
      else evs a)"
  by (simp add: noteChange_def Let_def split: option.split)

lemma collect_apply:
  "collect E evs fr a =
     (case notification fr of
        None \<Rightarrow> evs a
      | Some (c, h, p) \<Rightarrow> noteChange E evs c h p a)"
  by (cases fr) simp_all

text \<open>
  The first loop, from any starting map: an address with a notification in the batch
  ends with the change of its last notification, on the host and port the map already
  had for it or else on those of its first notification.
\<close>

lemma foldl_collect:
  "foldl (collect E) evs frames a =
     (case notificationsFor E a frames of
        [] \<Rightarrow> evs a
      | n # ns \<Rightarrow>
          Some \<lparr>change = fst (last (n # ns)),
                host = (case evs a of None \<Rightarrow> fst (snd n) | Some ev \<Rightarrow> host ev),
                port = (case evs a of None \<Rightarrow> snd (snd n) | Some ev \<Rightarrow> port ev)\<rparr>)"
proof (induction frames arbitrary: evs)
  case Nil
  show ?case by (simp add: notificationsFor_Nil)
next
  case (Cons fr frames)
  show ?case
  proof (cases "notification fr")
    case None
    then have "collect E evs fr a = evs a" by (simp add: collect_apply)
    then show ?thesis using None Cons.IH [of "collect E evs fr"]
      by (simp add: notificationsFor_Cons split: list.split)
  next
    case (Some n)
    obtain c h p where n: "n = (c, h, p)" by (cases n)
    have app: "collect E evs fr a = noteChange E evs c h p a"
      using Some n by (simp add: collect_apply)
    show ?thesis
    proof (cases "ipString E h = a")
      case True
      then show ?thesis using Some n app Cons.IH [of "collect E evs fr"]
        by (cases "evs a"; cases "notificationsFor E a frames")
           (simp_all add: notificationsFor_Cons noteChange_apply)
    next
      case False
      then show ?thesis using Some n app Cons.IH [of "collect E evs fr"]
        by (simp add: notificationsFor_Cons noteChange_apply split: list.split)
    qed
  qed
qed

lemma collectAll_resolved: "collectAll E frames a = resolved E frames a"
  by (simp add: collectAll_def resolved_def foldl_collect split: list.split)

lemma dom_collectAll: "dom (collectAll E frames) = {a. notificationsFor E a frames \<noteq> []}"
  by (auto simp add: dom_def collectAll_resolved resolved_def split: list.splits)

lemma handleOne_handlerFor:
  "handleOne E s a f =
     (case handlerFor (change f) of
        None \<Rightarrow> emit (Log (LogNodeEvent a (change f))) s
      | Some H \<Rightarrow> invoke H E (emit (Log (LogNodeEvent a (change f))) s) (host f) (port f))"
  by (simp add: handleOne_def handlerFor_def Let_def)

lemma handleEach_resolved:
  "handleEach E (collectAll E frames) = resolveAndDispatch E frames"
proof (intro ext)
  fix s a
  show "handleEach E (collectAll E frames) s a = resolveAndDispatch E frames s a"
    by (cases "notificationsFor E a frames")
       (simp_all add: handleEach_def collectAll_resolved resolved_def resolveAndDispatch_def
          handleOne_handlerFor Let_def split: option.split)
qed

text \<open>
  C1. Let \<open>order\<close> be the order in which Go ranges over the map built from a batch. Then
  every address with a topology or status notification in the batch is visited exactly
  once and no other address is; the event held for a visited address carries the change
  of the last notification for that address in batch order; and the whole run is, per
  visited address, the log line followed by the handler the table gives for that change
  (new-node, removed-node, node-up, node-down), no handler for \<open>MOVED_NODE\<close> or for a
  change outside the table. An address whose notifications are \<open>DOWN\<close> then \<open>UP\<close> gets
  one call of \<open>handleNodeUp\<close>.
\<close>

theorem handleNodeEvent_last_write_wins:
  assumes "rangeOrder (collectAll E frames) order"
  shows "distinct order
       \<and> set order = {a. notificationsFor E a frames \<noteq> []}
       \<and> (\<forall>a \<in> set order. \<exists>f ns c h p.
             collectAll E frames a = Some f
           \<and> notificationsFor E a frames = ns @ [(c, h, p)]
           \<and> change f = c)
       \<and> handleNodeEvent E order s frames = foldl (resolveAndDispatch E frames) s order
       \<and> (notificationsFor E a frames = [(''DOWN'', h1, p1), (''UP'', h2, p2)] \<longrightarrow>
            resolveAndDispatch E frames s a =
              handleNodeUp E (emit (Log (LogNodeEvent a ''UP'')) s) h1 p1)"
proof -
  have d: "distinct order" and so: "set order = {a. notificationsFor E a frames \<noteq> []}"
    using assms by (simp_all add: rangeOrder_def dom_collectAll)
  have lw: "\<exists>f ns c h p. collectAll E frames a' = Some f
              \<and> notificationsFor E a' frames = ns @ [(c, h, p)] \<and> change f = c"
    if "a' \<in> set order" for a'
  proof -
    from that so have ne: "notificationsFor E a' frames \<noteq> []" by simp
    then obtain ns n where ns: "notificationsFor E a' frames = ns @ [n]"
      by (cases "notificationsFor E a' frames" rule: rev_cases) auto
    obtain c h p where n: "n = (c, h, p)" by (cases n)
    from ne have "\<exists>f. collectAll E frames a' = Some f
        \<and> change f = fst (last (notificationsFor E a' frames))"
      by (cases "notificationsFor E a' frames") (simp_all add: collectAll_resolved resolved_def)
    then obtain f where f: "collectAll E frames a' = Some f"
      and cf: "change f = fst (last (notificationsFor E a' frames))"
      by blast
    from cf ns n have "change f = c" by simp
    with f ns n show ?thesis by blast
  qed
  have run: "handleNodeEvent E order s frames = foldl (resolveAndDispatch E frames) s order"
    by (simp add: handleNodeEvent_def handleEach_resolved)
  have du: "notificationsFor E a frames = [(''DOWN'', h1, p1), (''UP'', h2, p2)] \<longrightarrow>
            resolveAndDispatch E frames s a =
              handleNodeUp E (emit (Log (LogNodeEvent a ''UP'')) s) h1 p1"
    by (simp add: resolveAndDispatch_def handlerFor_def Let_def)
  from d so lw run du show ?thesis by blast
qed

theorem handleNodeEvent_last_write_wins_witness:
  "rangeOrder
     (collectAll exampleEnv
        [statusChangeEventFrame ''DOWN'' [10, 0, 0, 1] 9042,
         statusChangeEventFrame ''UP'' [10, 0, 0, 1] 9042]) [''10.0.0.1'']
   \<and> handleNodeEvent exampleEnv [''10.0.0.1''] exampleSession
        [statusChangeEventFrame ''DOWN'' [10, 0, 0, 1] 9042,
         statusChangeEventFrame ''UP'' [10, 0, 0, 1] 9042]
     = handleNodeUp exampleEnv
         (emit (Log (LogNodeEvent ''10.0.0.1'' ''UP'')) exampleSession) [10, 0, 0, 1] 9042
   \<and> trace (handleNodeEvent exampleEnv [''10.0.0.1''] exampleSession
        [statusChangeEventFrame ''DOWN'' [10, 0, 0, 1] 9042,
         statusChangeEventFrame ''UP'' [10, 0, 0, 1] 9042])
     = [Log (LogNodeEvent ''10.0.0.1'' ''UP''), RingGetHost ''10.0.0.1'',
        HostSetState 0 NodeUp, PoolHostUp 0]"
proof -
  let ?fs = "[statusChangeEventFrame ''DOWN'' [10, 0, 0, 1] 9042,
              statusChangeEventFrame ''UP'' [10, 0, 0, 1] 9042]"
  have ro: "rangeOrder (collectAll exampleEnv ?fs) [''10.0.0.1'']"
    by (simp add: rangeOrder_def collectAll_def noteChange_def exampleEnv_def ipv4String_defs)
  have nf: "notificationsFor exampleEnv ''10.0.0.1'' ?fs
              = [(''DOWN'', [10, 0, 0, 1], 9042), (''UP'', [10, 0, 0, 1], 9042)]"
    by (simp add: notificationsFor_Cons notificationsFor_Nil exampleEnv_def ipv4String_defs)
  have run: "handleNodeEvent exampleEnv [''10.0.0.1''] exampleSession ?fs
     = handleNodeUp exampleEnv
         (emit (Log (LogNodeEvent ''10.0.0.1'' ''UP'')) exampleSession) [10, 0, 0, 1] 9042"
    using handleNodeEvent_last_write_wins [OF ro, of exampleSession "''10.0.0.1''"
            "[10, 0, 0, 1]" 9042 "[10, 0, 0, 1]" 9042] nf
    by simp
  have tr: "trace (handleNodeUp exampleEnv
         (emit (Log (LogNodeEvent ''10.0.0.1'' ''UP'')) exampleSession) [10, 0, 0, 1] 9042)
     = [Log (LogNodeEvent ''10.0.0.1'' ''UP''), RingGetHost ''10.0.0.1'',
        HostSetState 0 NodeUp, PoolHostUp 0]"
    by (simp add: handleNodeUp_def ring_getHost_def HostInfo_setState_def emit_def
          example_defs Let_def)
  from ro run tr show ?thesis by simp
qed

text \<open>
  C9. The event held for an address has the host and the port of the first notification
  for that address in the batch. A later notification for an address already in the
  map changes the change of its event and nothing else. So of two \<open>UP\<close> notifications
  for one IP with different ports, the port of the first is the one \<open>handleNodeUp\<close>
  receives.
\<close>

theorem handleNodeEvent_first_host_port:
  "(collectAll E frames a = Some f \<longrightarrow>
      (\<exists>c h p ns. notificationsFor E a frames = (c, h, p) # ns \<and> host f = h \<and> port f = p))
   \<and> (collectAll E frames (ipString E h) = Some f \<and> notification fr = Some (c, h, p) \<longrightarrow>
        collectAll E (frames @ [fr]) (ipString E h) = Some (f\<lparr>change := c\<rparr>))
   \<and> handleNodeEvent E [ipString E h] s
        [statusChangeEventFrame ''UP'' h p1, statusChangeEventFrame ''UP'' h p2]
      = handleNodeUp E (emit (Log (LogNodeEvent (ipString E h) ''UP'')) s) h p1"
proof -
  have first: "collectAll E frames a = Some f \<longrightarrow>
      (\<exists>c h p ns. notificationsFor E a frames = (c, h, p) # ns \<and> host f = h \<and> port f = p)"
    by (cases "notificationsFor E a frames")
       (auto simp add: collectAll_resolved resolved_def)
  have later: "collectAll E frames (ipString E h) = Some f \<and> notification fr = Some (c, h, p) \<longrightarrow>
        collectAll E (frames @ [fr]) (ipString E h) = Some (f\<lparr>change := c\<rparr>)"
    by (simp add: collectAll_def collect_apply noteChange_apply)
  have run: "handleNodeEvent E [ipString E h] s
        [statusChangeEventFrame ''UP'' h p1, statusChangeEventFrame ''UP'' h p2]
      = handleNodeUp E (emit (Log (LogNodeEvent (ipString E h) ''UP'')) s) h p1"
    by (simp add: handleNodeEvent_def handleEach_def collectAll_def noteChange_def
          handleOne_def Let_def)
  from first later run show ?thesis by blast
qed

theorem handleNodeEvent_first_host_port_witness:
  "collectAll exampleEnv
     [topologyChangeEventFrame ''NEW_NODE'' [10, 0, 0, 1] 9042,
      statusChangeEventFrame ''UP'' [10, 0, 0, 1] 7000] ''10.0.0.1''
   = Some \<lparr>change = ''UP'', host = [10, 0, 0, 1], port = 9042\<rparr>"
proof -
  have one: "collectAll exampleEnv [topologyChangeEventFrame ''NEW_NODE'' [10, 0, 0, 1] 9042]
               (ipString exampleEnv [10, 0, 0, 1])
             = Some \<lparr>change = ''NEW_NODE'', host = [10, 0, 0, 1], port = 9042\<rparr>"
    by (simp add: collectAll_def noteChange_def exampleEnv_def ipv4String_defs)
  have n: "notification (statusChangeEventFrame ''UP'' [10, 0, 0, 1] 7000)
             = Some (''UP'', [10, 0, 0, 1], 7000)"
    by simp
  from handleNodeEvent_first_host_port
         [of exampleEnv "[topologyChangeEventFrame ''NEW_NODE'' [10, 0, 0, 1] 9042]"
             "ipString exampleEnv [10, 0, 0, 1]"
             "\<lparr>change = ''NEW_NODE'', host = [10, 0, 0, 1], port = 9042\<rparr>"
             "[10, 0, 0, 1]" "statusChangeEventFrame ''UP'' [10, 0, 0, 1] 7000" "''UP''" 7000]
       one n
  show ?thesis by (simp add: exampleEnv_def ipv4String_defs)
qed

subsection \<open>The dispatch entry point\<close>

text \<open>
  C7. \<open>handleEvent\<close> hands a topology or status change to \<open>debounce\<close>; a schema change
  is logged with every parsed frame and then dropped; any other frame is logged as
  invalid; a frame that does not parse is logged. In every case the framer goes back to
  its pool, the ring and the hosts are untouched, no callback is started, and the trace
  grows by log lines and the pool return only: no handler and no collaborator is called.
\<close>

theorem handleEvent_routes:
  "handleEvent s (Inl err) = s\<lparr>trace := trace s @ [Log (LogParseError err), FramerPoolPut]\<rparr>
   \<and> handleEvent s (Inr (topologyChangeEventFrame c h p)) =
       s\<lparr>nodeEvents := debounce (nodeEvents s) (topologyChangeEventFrame c h p),
         trace := trace s @ [Log (LogFrame (topologyChangeEventFrame c h p)), FramerPoolPut]\<rparr>
   \<and> handleEvent s (Inr (statusChangeEventFrame c h p)) =
       s\<lparr>nodeEvents := debounce (nodeEvents s) (statusChangeEventFrame c h p),
         trace := trace s @ [Log (LogFrame (statusChangeEventFrame c h p)), FramerPoolPut]\<rparr>
   \<and> handleEvent s (Inr (schemaChangeKeyspace x)) =
       s\<lparr>trace := trace s @ [Log (LogFrame (schemaChangeKeyspace x)), FramerPoolPut]\<rparr>
   \<and> handleEvent s (Inr (schemaChangeFunction x)) =
       s\<lparr>trace := trace s @ [Log (LogFrame (schemaChangeFunction x)), FramerPoolPut]\<rparr>
   \<and> handleEvent s (Inr (schemaChangeTable x)) =
       s\<lparr>trace := trace s @ [Log (LogFrame (schemaChangeTable x)), FramerPoolPut]\<rparr>
   \<and> handleEvent s (Inr (otherFrame x)) =
       s\<lparr>trace := trace s @ [Log (LogFrame (otherFrame x)), Log (LogInvalidFrame (otherFrame x)),
                             FramerPoolPut]\<rparr>
   \<and> ring (handleEvent s fr) = ring s
   \<and> heap (handleEvent s fr) = heap s
   \<and> spawned (nodeEvents (handleEvent s fr)) = spawned (nodeEvents s)
   \<and> (\<exists>ls. trace (handleEvent s fr) = trace s @ map Log ls @ [FramerPoolPut])"
proof -
  have cases_eq:
    "handleEvent s (Inl err) = s\<lparr>trace := trace s @ [Log (LogParseError err), FramerPoolPut]\<rparr>"
    "handleEvent s (Inr (topologyChangeEventFrame c h p)) =
       s\<lparr>nodeEvents := debounce (nodeEvents s) (topologyChangeEventFrame c h p),
         trace := trace s @ [Log (LogFrame (topologyChangeEventFrame c h p)), FramerPoolPut]\<rparr>"
    "handleEvent s (Inr (statusChangeEventFrame c h p)) =
       s\<lparr>nodeEvents := debounce (nodeEvents s) (statusChangeEventFrame c h p),
         trace := trace s @ [Log (LogFrame (statusChangeEventFrame c h p)), FramerPoolPut]\<rparr>"
    "handleEvent s (Inr (schemaChangeKeyspace x)) =
       s\<lparr>trace := trace s @ [Log (LogFrame (schemaChangeKeyspace x)), FramerPoolPut]\<rparr>"
    "handleEvent s (Inr (schemaChangeFunction x)) =
       s\<lparr>trace := trace s @ [Log (LogFrame (schemaChangeFunction x)), FramerPoolPut]\<rparr>"
    "handleEvent s (Inr (schemaChangeTable x)) =
       s\<lparr>trace := trace s @ [Log (LogFrame (schemaChangeTable x)), FramerPoolPut]\<rparr>"
    "handleEvent s (Inr (otherFrame x)) =
       s\<lparr>trace := trace s @ [Log (LogFrame (otherFrame x)), Log (LogInvalidFrame (otherFrame x)),
                             FramerPoolPut]\<rparr>"
    by (simp_all add: handleEvent_def emit_def Let_def)
  have inv: "ring (handleEvent s fr) = ring s \<and> heap (handleEvent s fr) = heap s
       \<and> spawned (nodeEvents (handleEvent s fr)) = spawned (nodeEvents s)"
    by (simp add: handleEvent_def emit_def Let_def spawned_debounce split: sum.split frame.split)
  have tr: "\<exists>ls. trace (handleEvent s fr) = trace s @ map Log ls @ [FramerPoolPut]"
  proof (cases fr)
    case (Inl e)
    have "trace (handleEvent s (Inl e)) = trace s @ map Log [LogParseError e] @ [FramerPoolPut]"
      by (simp add: handleEvent_def emit_def)
    with Inl show ?thesis by blast
  next
    case (Inr f)
    show ?thesis
    proof (cases "\<exists>x. f = otherFrame x")
      case True
      then have "trace (handleEvent s (Inr f))
                   = trace s @ map Log [LogFrame f, LogInvalidFrame f] @ [FramerPoolPut]"
        by (auto simp add: handleEvent_def emit_def Let_def)
      with Inr show ?thesis by blast
    next
      case False
      then have "trace (handleEvent s (Inr f)) = trace s @ map Log [LogFrame f] @ [FramerPoolPut]"
        by (cases f) (simp_all add: handleEvent_def emit_def Let_def)
      with Inr show ?thesis by blast
    qed
  qed
  from cases_eq inv tr show ?thesis by blast
qed

end
